theory Spec2Isabelle
  imports Main "HOL-Library.Word"
begin

section \<open>The VirtualBox vm builder: preparing and validating the configuration\<close>

text \<open>
  This theory embeds \<^verbatim>\<open>Config.Prepare\<close> of \<^verbatim>\<open>builder/virtualbox/vm/config.go\<close>.
  The function decodes the raw configuration, fills in defaults, collects the errors of
  the embedded configurations and of its own fields, collects warnings, and then checks
  the two snapshot names of the configuration (\<^verbatim>\<open>attach_snapshot\<close> and
  \<^verbatim>\<open>target_snapshot\<close>) against the snapshot tree of the virtual machine.

  Go strings are \<open>string\<close>; the empty string is \<open>[]\<close>. A pointer that may be
  \<^verbatim>\<open>nil\<close> is an \<open>option\<close>. A run of \<^verbatim>\<open>Prepare\<close> either panics or returns its
  two results. Calls of \<^verbatim>\<open>log.Printf\<close> have no effect on the results and are left
  out, except that an argument which dereferences a pointer is evaluated first and can
  panic: that is modelled.
\<close>

subsection \<open>The snapshot tree\<close>

text \<open>
  Modelled from the spec: the type \<^verbatim>\<open>VBoxSnapshot\<close> is declared in another package,
  \<^verbatim>\<open>builder/virtualbox/common\<close>, and \<^verbatim>\<open>config.go\<close> only uses it.
  A node has a name (not necessarily unique), a UUID, a back-reference to its parent
  (absent for a root) and an ordered collection of children. The back-reference is
  held by value: \<open>Parent s = Some p\<close> where \<open>p\<close> carries the fields of the parent
  node. \<^verbatim>\<open>Prepare\<close> reads of it only whether it is present and \<open>UUID p\<close>.
\<close>

datatype VBoxSnapshot =
  VBoxSnapshot (Name: string) (UUID: string) (Parent: "VBoxSnapshot option")
    (Children: "VBoxSnapshot list")

text \<open>
  Modelled from the spec: a snapshot tree owns its root nodes and refers to the node
  the machine is attached to at present. The reference is optional here, as the result
  of \<^verbatim>\<open>GetCurrentSnapshot\<close> is a pointer in the code.
\<close>

record SnapshotTree =
  Roots :: "VBoxSnapshot list"
  CurrentSnapshot :: "VBoxSnapshot option"

text \<open>Depth-first traversal, a node before its children, children in their order.\<close>

fun walk :: "VBoxSnapshot \<Rightarrow> VBoxSnapshot list" where
  "walk (VBoxSnapshot n u p cs) = VBoxSnapshot n u p cs # concat (map walk cs)"

definition nodes :: "SnapshotTree \<Rightarrow> VBoxSnapshot list" where
  "nodes t = concat (map walk (Roots t))"

text \<open>
  Modelled from the spec: \<^verbatim>\<open>GetCurrentSnapshot\<close> returns the node the machine is
  attached to, or nothing.
\<close>

definition GetCurrentSnapshot :: "SnapshotTree \<Rightarrow> VBoxSnapshot option" where
  "GetCurrentSnapshot t = CurrentSnapshot t"

text \<open>
  Modelled from the spec: \<^verbatim>\<open>GetSnapshotsByName\<close> returns every node of the tree
  whose name equals the given one, in the order of the depth-first traversal; the
  empty list if there is none.
\<close>

definition GetSnapshotsByName :: "SnapshotTree \<Rightarrow> string \<Rightarrow> VBoxSnapshot list" where
  "GetSnapshotsByName t name = filter (\<lambda>s. Name s = name) (nodes t)"

text \<open>
  The invariant of the data model: the current snapshot is absent only if the tree
  itself is absent. An absent tree (\<open>None\<close>) stands for a machine without snapshots.
\<close>

definition tree_invariant :: "SnapshotTree option \<Rightarrow> bool" where
  "tree_invariant snapshotTree =
     (case snapshotTree of None \<Rightarrow> True | Some t \<Rightarrow> GetCurrentSnapshot t \<noteq> None)"

text \<open>
  The nodes of a given name in a tree that may be absent: an absent tree has none.
\<close>

definition namedNodes :: "SnapshotTree option \<Rightarrow> string \<Rightarrow> VBoxSnapshot list" where
  "namedNodes snapshotTree name =
     (case snapshotTree of None \<Rightarrow> [] | Some t \<Rightarrow> GetSnapshotsByName t name)"

subsection \<open>The configuration\<close>

text \<open>
  The fields that \<^verbatim>\<open>Config\<close> declares itself, and the two fields of the embedded
  \<^verbatim>\<open>ShutdownConfig\<close> that \<^verbatim>\<open>Prepare\<close> reads. \<^verbatim>\<open>time.Duration\<close> is a signed
  64-bit count of nanoseconds.
\<close>

record Config =
  GuestAdditionsMode :: string
  GuestAdditionsPath :: string
  GuestAdditionsSHA256 :: string
  GuestAdditionsURL :: string
  VMName :: string
  AttachSnapshot :: string
  TargetSnapshot :: string
  DeleteTargetSnapshot :: bool
  KeepRegistered :: bool
  SkipExport :: bool
  PostShutdownDelay :: "64 word"
  ShutdownCommand :: string

definition Second :: "64 word" where
  "Second = 1000000000"

text \<open>
  Modelled from the spec: the three constants are declared in the package
  \<^verbatim>\<open>builder/virtualbox/common\<close>; their values are the options that the
  documentation of \<^verbatim>\<open>guest_additions_mode\<close> in \<^verbatim>\<open>config.go\<close> lists.
\<close>

definition GuestAdditionsModeDisable :: string where
  "GuestAdditionsModeDisable = ''disable''"

definition GuestAdditionsModeAttach :: string where
  "GuestAdditionsModeAttach = ''attach''"

definition GuestAdditionsModeUpload :: string where
  "GuestAdditionsModeUpload = ''upload''"

subsection \<open>Errors, panics and results\<close>

text \<open>
  One constructor for each call of \<^verbatim>\<open>fmt.Errorf\<close> in \<^verbatim>\<open>Prepare\<close>, with the
  arguments of the call; \<open>Foreign\<close> is an error reported by a collaborator.

  \<^item> \<open>ErrVMNameRequired\<close>: "vm_name is required"
  \<^item> \<open>ErrGuestAdditionsMode\<close>: "guest_additions_mode is invalid. Must be one of: ..."
  \<^item> \<open>ErrDriver\<close>: "Failed creating VirtualBox driver: ..."
  \<^item> \<open>ErrSameAttachAndTarget\<close>: "Attach snapshot ... and target snapshot ... cannot be
    the same"
  \<^item> \<open>ErrLoadSnapshots\<close>: "Failed to load snapshots for VM ...: ..."
  \<^item> \<open>ErrNoSnapshotsDefined\<close>: "No snapshots defined on VM ... Unable to attach to ..."
  \<^item> \<open>ErrAttachSnapshotNotFound\<close>: "Snapshot ... does not exist on VM ..."
  \<^item> \<open>ErrAttachSnapshotAmbiguous\<close>: "Multiple Snapshots with name ... exist on VM ..."
  \<^item> \<open>ErrTargetEqualsAttach\<close>: "Target snapshot ... cannot be the same as the snapshot
    to which the builder shall attach: ..."
  \<^item> \<open>ErrTargetNotDirectChild\<close>: "Target snapshot ... already exists and is not a direct
    child of ..."
  \<^item> \<open>ErrTargetAlreadyExists\<close>: "Target snapshot ... already exists as direct child of
    ... for VM ... Use force_delete_snapshot = true to overwrite snapshot"
\<close>

datatype error =
    Foreign string
  | ErrVMNameRequired
  | ErrGuestAdditionsMode "string list"
  | ErrDriver string
  | ErrSameAttachAndTarget string string
  | ErrLoadSnapshots string string
  | ErrNoSnapshotsDefined string string
  | ErrAttachSnapshotNotFound string string
  | ErrAttachSnapshotAmbiguous string string
  | ErrTargetEqualsAttach string string
  | ErrTargetNotDirectChild string string
  | ErrTargetAlreadyExists string string string

datatype panic = NilPointerDereference | InternalError string

text \<open>
  The second result of \<^verbatim>\<open>Prepare\<close>: the error of the decoder, or the collected
  errors.
\<close>

datatype prepare_error = DecodeError string | MultiError "error list"

datatype outcome = Panicked panic | Returned "string list" "prepare_error option"

text \<open>
  Modelled from the spec: \<^verbatim>\<open>packer.MultiErrorAppend\<close> belongs to the package
  \<^verbatim>\<open>packer\<close>. It collects error values in a growable list, in the order in which
  they are reported. A \<^verbatim>\<open>nil\<close> collector and one without errors are both the empty
  list; the test that ends \<^verbatim>\<open>Prepare\<close> does not tell them apart.
\<close>

definition MultiErrorAppend :: "error list \<Rightarrow> error list \<Rightarrow> error list" where
  "MultiErrorAppend errs es = errs @ es"

subsection \<open>The collaborators\<close>

text \<open>
  What \<^verbatim>\<open>Prepare\<close> obtains from outside is a parameter of the model: the outcome of
  \<^verbatim>\<open>config.Decode\<close> (an error, or the decoded configuration), the errors that the
  \<^verbatim>\<open>Prepare\<close> of each embedded configuration returns, the outcome of
  \<^verbatim>\<open>vboxcommon.NewDriver\<close>, the driver's \<^verbatim>\<open>LoadSnapshots\<close> (an error, or the tree,
  or no tree for a machine without snapshots) and \<^verbatim>\<open>strings.ToLower\<close>. The
  \<^verbatim>\<open>Prepare\<close> of an embedded configuration works on that configuration only; it is
  taken to leave the fields alone that are read after it.
\<close>

record Driver =
  LoadSnapshots :: "string \<Rightarrow> string + SnapshotTree option"

record Env =
  Decode :: "string + Config"
  ExportConfig_Prepare :: "error list"
  FloppyConfig_Prepare :: "error list"
  HTTPConfig_Prepare :: "error list"
  OutputConfig_Prepare :: "error list"
  RunConfig_Prepare :: "error list"
  ShutdownConfig_Prepare :: "error list"
  CommConfig_Prepare :: "error list"
  VBoxManageConfig_Prepare :: "error list"
  VBoxVersionConfig_Prepare :: "error list"
  BootConfig_Prepare :: "error list"
  NewDriver :: "string + Driver"
  ToLower :: "string \<Rightarrow> string"

subsection \<open>Defaults (lines 111 to 122)\<close>

definition applyDefaults :: "Config \<Rightarrow> Config" where
  "applyDefaults c =
     (let c = (if GuestAdditionsMode c = [] then c\<lparr>GuestAdditionsMode := ''upload''\<rparr> else c);
          c = (if GuestAdditionsPath c = []
               then c\<lparr>GuestAdditionsPath := ''VBoxGuestAdditions.iso''\<rparr> else c);
          c = (if PostShutdownDelay c = 0 then c\<lparr>PostShutdownDelay := 2 * Second\<rparr> else c)
      in c)"

subsection \<open>Errors of the fields (lines 124 to 161)\<close>

definition embeddedErrors :: "Env \<Rightarrow> error list" where
  "embeddedErrors env =
     (let errs = [];
          errs = MultiErrorAppend errs (ExportConfig_Prepare env);
          errs = MultiErrorAppend errs (FloppyConfig_Prepare env);
          errs = MultiErrorAppend errs (HTTPConfig_Prepare env);
          errs = MultiErrorAppend errs (OutputConfig_Prepare env);
          errs = MultiErrorAppend errs (RunConfig_Prepare env);
          errs = MultiErrorAppend errs (ShutdownConfig_Prepare env);
          errs = MultiErrorAppend errs (CommConfig_Prepare env);
          errs = MultiErrorAppend errs (VBoxManageConfig_Prepare env);
          errs = MultiErrorAppend errs (VBoxVersionConfig_Prepare env);
          errs = MultiErrorAppend errs (BootConfig_Prepare env)
      in errs)"

definition validModes :: "string list" where
  "validModes = [GuestAdditionsModeDisable, GuestAdditionsModeAttach, GuestAdditionsModeUpload]"

text \<open>The loop of lines 151 to 156, started with \<open>validMode = False\<close>.\<close>

fun validModeLoop :: "string \<Rightarrow> string list \<Rightarrow> bool \<Rightarrow> bool" where
  "validModeLoop m [] validMode = validMode"
| "validModeLoop m (mode # rest) validMode =
     (if m = mode then True else validModeLoop m rest validMode)"

definition fieldErrors :: "Env \<Rightarrow> Config \<Rightarrow> error list" where
  "fieldErrors env c =
     (let errs = embeddedErrors env;
          errs = (if VMName c = [] then MultiErrorAppend errs [ErrVMNameRequired] else errs);
          validMode = validModeLoop (GuestAdditionsMode c) validModes False;
          errs = (if \<not> validMode then MultiErrorAppend errs [ErrGuestAdditionsMode validModes]
                  else errs)
      in errs)"

subsection \<open>Warnings (lines 167 to 179)\<close>

definition warningsOf :: "Config \<Rightarrow> string list" where
  "warningsOf c =
     (let warnings = [];
          warnings = (if TargetSnapshot c = [] \<and> SkipExport c
            then warnings @
              [''No target snapshot is specified (target_snapshot empty) and no export will be created (skip_export=true).\<newline>'' @
               ''You might lose all changes applied by this run, the next time you execute packer.'']
            else warnings);
          warnings = (if ShutdownCommand c = []
            then warnings @
              [''A shutdown_command was not specified. Without a shutdown command, Packer\<newline>'' @
               ''will forcibly halt the virtual machine, which may result in data loss.'']
            else warnings)
      in warnings)"

subsection \<open>The snapshot checks (lines 185 to 187 and 195 to 246)\<close>

text \<open>Lines 185 to 187: the two names are given and equal.\<close>

definition checkSameName :: "Config \<Rightarrow> error list \<Rightarrow> error list" where
  "checkSameName c errs =
     (if AttachSnapshot c \<noteq> [] \<and> TargetSnapshot c \<noteq> [] \<and> AttachSnapshot c = TargetSnapshot c
      then MultiErrorAppend errs [ErrSameAttachAndTarget (AttachSnapshot c) (TargetSnapshot c)]
      else errs)"

text \<open>
  Lines 195 to 199: the variable \<^verbatim>\<open>attachSnapshot\<close> starts as \<^verbatim>\<open>nil\<close>; with a tree
  it becomes the current snapshot, whose name and UUID are then logged, which
  dereferences the pointer.
\<close>

definition currentAttach :: "SnapshotTree option \<Rightarrow> panic + VBoxSnapshot option" where
  "currentAttach snapshotTree =
     (case snapshotTree of
        None \<Rightarrow> Inr None
      | Some t \<Rightarrow>
          (case GetCurrentSnapshot t of
             None \<Rightarrow> Inl NilPointerDereference
           | Some cur \<Rightarrow> Inr (Some cur)))"

text \<open>
  Lines 200 to 214: the attach snapshot named by the configuration. The result is the
  variable \<^verbatim>\<open>attachSnapshot\<close> and the errors.
\<close>

definition checkAttach ::
  "Config \<Rightarrow> SnapshotTree option \<Rightarrow> VBoxSnapshot option \<Rightarrow> error list
     \<Rightarrow> VBoxSnapshot option \<times> error list" where
  "checkAttach c snapshotTree attachSnapshot errs =
     (if AttachSnapshot c \<noteq> [] then
        (case snapshotTree of
           None \<Rightarrow>
             (attachSnapshot,
              MultiErrorAppend errs [ErrNoSnapshotsDefined (VMName c) (AttachSnapshot c)])
         | Some t \<Rightarrow>
             (let snapshots = GetSnapshotsByName t (AttachSnapshot c) in
              if 0 \<ge> length snapshots then
                (attachSnapshot,
                 MultiErrorAppend errs [ErrAttachSnapshotNotFound (AttachSnapshot c) (VMName c)])
              else if 1 < length snapshots then
                (attachSnapshot,
                 MultiErrorAppend errs [ErrAttachSnapshotAmbiguous (AttachSnapshot c) (VMName c)])
              else (Some (snapshots ! 0), errs)))
      else (attachSnapshot, errs))"

text \<open>
  The right-hand side of line 231:
  \<^verbatim>\<open>nil != snapshot.Parent && snapshot.Parent.UUID == attachSnapshot.UUID\<close>.
\<close>

definition isDirectChild :: "VBoxSnapshot \<Rightarrow> VBoxSnapshot \<Rightarrow> bool" where
  "isDirectChild snapshot attachSnapshot =
     (case Parent snapshot of None \<Rightarrow> False | Some p \<Rightarrow> UUID p = UUID attachSnapshot)"

text \<open>
  The loop of lines 229 to 232: each round assigns \<^verbatim>\<open>isChild\<close> anew.
\<close>

fun isChildLoop :: "VBoxSnapshot list \<Rightarrow> VBoxSnapshot \<Rightarrow> bool \<Rightarrow> bool" where
  "isChildLoop [] attachSnapshot isChild = isChild"
| "isChildLoop (snapshot # rest) attachSnapshot isChild =
     isChildLoop rest attachSnapshot (isDirectChild snapshot attachSnapshot)"

text \<open>
  Lines 215 to 246: the target snapshot named by the configuration. Line 220 reads
  \<^verbatim>\<open>attachSnapshot.Name\<close> and so dereferences the pointer before line 225 tests it.
\<close>

definition checkTarget ::
  "Config \<Rightarrow> SnapshotTree option \<Rightarrow> VBoxSnapshot option \<Rightarrow> error list \<Rightarrow> panic + error list"
  where
  "checkTarget c snapshotTree attachSnapshot errs =
     (if TargetSnapshot c \<noteq> [] then
        (case snapshotTree of
           None \<Rightarrow> Inr errs
         | Some t \<Rightarrow>
             (case attachSnapshot of
                None \<Rightarrow> Inl NilPointerDereference
              | Some a \<Rightarrow>
                  if TargetSnapshot c = Name a then
                    Inr (MultiErrorAppend errs [ErrTargetEqualsAttach (TargetSnapshot c) (Name a)])
                  else
                    (let snapshots = GetSnapshotsByName t (TargetSnapshot c) in
                     if 0 < length snapshots then
                       (if attachSnapshot = None then
                          Inl (InternalError ''Internal error. Expecting a handle to a VBoxSnapshot'')
                        else
                          (let isChild = isChildLoop snapshots a False in
                           if \<not> isChild then
                             Inr (MultiErrorAppend errs
                                   [ErrTargetNotDirectChild (TargetSnapshot c) (Name a)])
                           else if \<not> DeleteTargetSnapshot c then
                             Inr (MultiErrorAppend errs
                                   [ErrTargetAlreadyExists (TargetSnapshot c) (Name a) (VMName c)])
                           else Inr errs))
                     else Inr errs)))
      else Inr errs)"

text \<open>Lines 195 to 246, for the tree that \<^verbatim>\<open>LoadSnapshots\<close> returned.\<close>

definition checkSnapshots ::
  "Config \<Rightarrow> SnapshotTree option \<Rightarrow> error list \<Rightarrow> panic + error list" where
  "checkSnapshots c snapshotTree errs =
     (case currentAttach snapshotTree of
        Inl p \<Rightarrow> Inl p
      | Inr attachSnapshot \<Rightarrow>
          (case checkAttach c snapshotTree attachSnapshot errs of
             (attachSnapshot, errs) \<Rightarrow> checkTarget c snapshotTree attachSnapshot errs))"

text \<open>
  The validation of the snapshot names against a loaded tree: what lines 185 to 187
  and 195 to 246 add to the errors.
\<close>

definition validate :: "Config \<Rightarrow> SnapshotTree option \<Rightarrow> panic + error list" where
  "validate c snapshotTree = checkSnapshots c snapshotTree (checkSameName c [])"

subsection \<open>Prepare\<close>

text \<open>
  Lines 181 to 248: the driver, and with a driver the snapshot checks.
\<close>

definition driverChecks :: "Env \<Rightarrow> Config \<Rightarrow> error list \<Rightarrow> panic + error list" where
  "driverChecks env c errs =
     (case NewDriver env of
        Inl err \<Rightarrow> Inr (MultiErrorAppend errs [ErrDriver err])
      | Inr driver \<Rightarrow>
          (let errs = checkSameName c errs in
           case LoadSnapshots driver (VMName c) of
             Inl err \<Rightarrow> Inr (MultiErrorAppend errs [ErrLoadSnapshots (VMName c) err])
           | Inr snapshotTree \<Rightarrow> checkSnapshots c snapshotTree errs))"

text \<open>
  The state when line 249 is reached: the configuration as \<^verbatim>\<open>Prepare\<close> leaves it in
  its receiver (\<open>st_c\<close>), and the two variables \<^verbatim>\<open>warnings\<close> and \<^verbatim>\<open>errs\<close>.
\<close>

record Collected =
  st_c :: Config
  st_warnings :: "string list"
  st_errs :: "error list"

text \<open>Lines 111 to 248, for a decoded configuration.\<close>

definition collect :: "Env \<Rightarrow> Config \<Rightarrow> panic + Collected" where
  "collect env c =
     (let c = applyDefaults c;
          errs = fieldErrors env c;
          c = (if GuestAdditionsSHA256 c \<noteq> []
               then c\<lparr>GuestAdditionsSHA256 := ToLower env (GuestAdditionsSHA256 c)\<rparr> else c);
          warnings = warningsOf c
      in case driverChecks env c errs of
           Inl p \<Rightarrow> Inl p
         | Inr errs \<Rightarrow> Inr \<lparr>st_c = c, st_warnings = warnings, st_errs = errs\<rparr>)"

text \<open>
  The whole function: the decoder's error is returned at once, without warnings
  (lines 107 to 109); otherwise lines 249 to 254 decide the second result.
\<close>

definition Prepare :: "Env \<Rightarrow> outcome" where
  "Prepare env =
     (case Decode env of
        Inl err \<Rightarrow> Returned [] (Some (DecodeError err))
      | Inr c \<Rightarrow>
          (case collect env c of
             Inl p \<Rightarrow> Panicked p
           | Inr st \<Rightarrow>
               if st_errs st \<noteq> [] \<and> length (st_errs st) > 0
               then Returned (st_warnings st) (Some (MultiError (st_errs st)))
               else Returned (st_warnings st) None))"

subsection \<open>Example trees and configurations\<close>

text \<open>
  The tree of the scenarios: a root \<open>root\<close> (UUID \<open>u1\<close>), which is the current
  snapshot, with one child \<open>built\<close> (UUID \<open>u2\<close>). \<open>rootRef\<close> is the root as a child
  refers to it.
\<close>

definition rootRef :: VBoxSnapshot where
  "rootRef = VBoxSnapshot ''root'' ''u1'' None []"

definition builtNode :: VBoxSnapshot where
  "builtNode = VBoxSnapshot ''built'' ''u2'' (Some rootRef) []"

definition rootNode :: VBoxSnapshot where
  "rootNode = VBoxSnapshot ''root'' ''u1'' None [builtNode]"

definition scenarioTree :: SnapshotTree where
  "scenarioTree = \<lparr>Roots = [rootNode], CurrentSnapshot = Some rootNode\<rparr>"

text \<open>
  The same root with a second child \<open>other\<close> (UUID \<open>u3\<close>), which has a child of its own
  that is also named \<open>built\<close> (UUID \<open>u4\<close>).
\<close>

definition deepBuiltNode :: VBoxSnapshot where
  "deepBuiltNode =
     VBoxSnapshot ''built'' ''u4'' (Some (VBoxSnapshot ''other'' ''u3'' (Some rootRef) [])) []"

definition otherNode :: VBoxSnapshot where
  "otherNode = VBoxSnapshot ''other'' ''u3'' (Some rootRef) [deepBuiltNode]"

definition shadowedRoot :: VBoxSnapshot where
  "shadowedRoot = VBoxSnapshot ''root'' ''u1'' None [builtNode, otherNode]"

definition shadowedTree :: SnapshotTree where
  "shadowedTree = \<lparr>Roots = [shadowedRoot], CurrentSnapshot = Some shadowedRoot\<rparr>"

text \<open>A configuration for the machine \<open>vm\<close> with a shutdown command and nothing else.\<close>

definition baseConfig :: Config where
  "baseConfig =
     \<lparr>GuestAdditionsMode = [], GuestAdditionsPath = [], GuestAdditionsSHA256 = [],
      GuestAdditionsURL = [], VMName = ''vm'', AttachSnapshot = [], TargetSnapshot = [],
      DeleteTargetSnapshot = False, KeepRegistered = False, SkipExport = False,
      PostShutdownDelay = 0, ShutdownCommand = ''halt''\<rparr>"

definition names :: "string \<Rightarrow> string \<Rightarrow> Config" where
  "names a t = baseConfig\<lparr>AttachSnapshot := a, TargetSnapshot := t\<rparr>"

text \<open>The same configuration without a shutdown command.\<close>

definition haltless :: "Config \<Rightarrow> Config" where
  "haltless c = c\<lparr>ShutdownCommand := []\<rparr>"

text \<open>Two nodes named \<open>dup\<close>, one the child of the other.\<close>

definition dupChild :: VBoxSnapshot where
  "dupChild = VBoxSnapshot ''dup'' ''u2'' (Some (VBoxSnapshot ''dup'' ''u1'' None [])) []"

definition dupRoot :: VBoxSnapshot where
  "dupRoot = VBoxSnapshot ''dup'' ''u1'' None [dupChild]"

definition dupTree :: SnapshotTree where
  "dupTree = \<lparr>Roots = [dupRoot], CurrentSnapshot = Some dupRoot\<rparr>"

text \<open>
  Collaborators that report nothing: the configuration decodes to \<open>c\<close>, the embedded
  configurations have no errors, the driver exists and \<^verbatim>\<open>LoadSnapshots\<close> answers
  \<open>loaded\<close> for every machine.
\<close>

definition quietEnv :: "Config \<Rightarrow> string + SnapshotTree option \<Rightarrow> Env" where
  "quietEnv c loaded =
     \<lparr>Decode = Inr c, ExportConfig_Prepare = [], FloppyConfig_Prepare = [],
      HTTPConfig_Prepare = [], OutputConfig_Prepare = [], RunConfig_Prepare = [],
      ShutdownConfig_Prepare = [], CommConfig_Prepare = [], VBoxManageConfig_Prepare = [],
      VBoxVersionConfig_Prepare = [], BootConfig_Prepare = [],
      NewDriver = Inr \<lparr>LoadSnapshots = (\<lambda>vmName. loaded)\<rparr>, ToLower = (\<lambda>s. s)\<rparr>"

text \<open>The same, but the decoder fails.\<close>

definition failedDecodeEnv :: Env where
  "failedDecodeEnv =
     (quietEnv baseConfig (Inr None))\<lparr>Decode := Inl ''unknown configuration key''\<rparr>"

section \<open>Properties\<close>

subsection \<open>Auxiliary facts\<close>

lemmas example_defs = rootRef_def builtNode_def rootNode_def scenarioTree_def deepBuiltNode_def
  otherNode_def shadowedRoot_def shadowedTree_def baseConfig_def names_def haltless_def
  dupChild_def dupRoot_def dupTree_def failedDecodeEnv_def quietEnv_def

lemmas check_defs = validate_def checkSnapshots_def currentAttach_def checkAttach_def
  checkTarget_def checkSameName_def MultiErrorAppend_def

lemmas tree_defs = GetCurrentSnapshot_def GetSnapshotsByName_def nodes_def isDirectChild_def
  namedNodes_def tree_invariant_def

text \<open>Only the last round of the loop counts.\<close>

lemma isChildLoop_last:
  "isChildLoop snapshots a b = (if snapshots = [] then b else isDirectChild (last snapshots) a)"
  by (induction snapshots arbitrary: b) auto

lemma GetSnapshotsByName_Name:
  "s \<in> set (GetSnapshotsByName t name) \<Longrightarrow> Name s = name"
  by (simp add: GetSnapshotsByName_def)

text \<open>The checks only ever add to the errors that were collected before.\<close>

lemma checkSameName_append: "checkSameName c errs = errs @ checkSameName c []"
  by (simp add: checkSameName_def MultiErrorAppend_def)

lemma checkTarget_append:
  "checkTarget c tree a errs =
     (case checkTarget c tree a [] of Inl p \<Rightarrow> Inl p | Inr es \<Rightarrow> Inr (errs @ es))"
  by (simp add: checkTarget_def MultiErrorAppend_def Let_def split: option.splits)

lemma checkAttach_append:
  "checkAttach c tree a errs = (fst (checkAttach c tree a []), errs @ snd (checkAttach c tree a []))"
  by (simp add: checkAttach_def MultiErrorAppend_def Let_def split: option.splits)

lemma checkSnapshots_append:
  "checkSnapshots c tree errs =
     (case checkSnapshots c tree [] of Inl p \<Rightarrow> Inl p | Inr es \<Rightarrow> Inr (errs @ es))"
proof (cases "currentAttach tree")
  case (Inl p)
  then show ?thesis by (simp add: checkSnapshots_def)
next
  case (Inr a)
  obtain a' es where ca: "checkAttach c tree a [] = (a', es)"
    by (cases "checkAttach c tree a []")
  have ca': "checkAttach c tree a errs = (a', errs @ es)"
    using checkAttach_append [of c tree a errs] ca by simp
  have "checkTarget c tree a' (errs @ es) =
      (case checkTarget c tree a' [] of Inl p \<Rightarrow> Inl p | Inr ts \<Rightarrow> Inr ((errs @ es) @ ts))"
    by (rule checkTarget_append)
  moreover have "checkTarget c tree a' es =
      (case checkTarget c tree a' [] of Inl p \<Rightarrow> Inl p | Inr ts \<Rightarrow> Inr (es @ ts))"
    by (rule checkTarget_append)
  ultimately show ?thesis
    using Inr ca ca' by (simp add: checkSnapshots_def split: sum.splits)
qed

text \<open>
  With a driver and a loaded tree, lines 181 to 248 add to the errors exactly what
  \<open>validate\<close> reports.
\<close>

lemma driverChecks_validate:
  assumes "NewDriver env = Inr d" and "LoadSnapshots d (VMName c) = Inr tree"
  shows "driverChecks env c errs =
    (case validate c tree of Inl p \<Rightarrow> Inl p | Inr es \<Rightarrow> Inr (errs @ es))"
proof -
  have 1: "driverChecks env c errs = checkSnapshots c tree (errs @ checkSameName c [])"
    using assms checkSameName_append [of c errs] by (simp add: driverChecks_def)
  have 2: "checkSnapshots c tree (errs @ checkSameName c []) =
      (case checkSnapshots c tree [] of Inl p \<Rightarrow> Inl p
       | Inr es \<Rightarrow> Inr ((errs @ checkSameName c []) @ es))"
    by (rule checkSnapshots_append)
  have 3: "validate c tree =
      (case checkSnapshots c tree [] of Inl p \<Rightarrow> Inl p
       | Inr es \<Rightarrow> Inr (checkSameName c [] @ es))"
    unfolding validate_def by (rule checkSnapshots_append)
  show ?thesis
    unfolding 1 2 3 by (simp split: sum.splits)
qed

text \<open>The snapshot checks read four fields of the configuration.\<close>

lemma checkAttach_fields:
  assumes "VMName c' = VMName c" "AttachSnapshot c' = AttachSnapshot c"
  shows "checkAttach c' tree a errs = checkAttach c tree a errs"
  using assms by (simp add: checkAttach_def Let_def cong: if_cong option.case_cong)

lemma checkTarget_fields:
  assumes "VMName c' = VMName c" "TargetSnapshot c' = TargetSnapshot c"
    "DeleteTargetSnapshot c' = DeleteTargetSnapshot c"
  shows "checkTarget c' tree a errs = checkTarget c tree a errs"
  using assms by (simp add: checkTarget_def Let_def cong: if_cong option.case_cong)

lemma checkSnapshots_fields:
  assumes "VMName c' = VMName c" "AttachSnapshot c' = AttachSnapshot c"
    "TargetSnapshot c' = TargetSnapshot c" "DeleteTargetSnapshot c' = DeleteTargetSnapshot c"
  shows "checkSnapshots c' tree errs = checkSnapshots c tree errs"
  using assms
  by (simp add: checkSnapshots_def checkAttach_fields [of c' c] checkTarget_fields [of c' c]
      cong: sum.case_cong prod.case_cong)

lemma driverChecks_fields:
  assumes "VMName c' = VMName c" "AttachSnapshot c' = AttachSnapshot c"
    "TargetSnapshot c' = TargetSnapshot c" "DeleteTargetSnapshot c' = DeleteTargetSnapshot c"
  shows "driverChecks env c' errs = driverChecks env c errs"
  using assms checkSnapshots_fields [OF assms]
  by (simp add: driverChecks_def checkSameName_def Let_def cong: sum.case_cong)

lemma applyDefaults_kept [simp]:
  "VMName (applyDefaults c) = VMName c"
  "AttachSnapshot (applyDefaults c) = AttachSnapshot c"
  "TargetSnapshot (applyDefaults c) = TargetSnapshot c"
  "DeleteTargetSnapshot (applyDefaults c) = DeleteTargetSnapshot c"
  "SkipExport (applyDefaults c) = SkipExport c"
  "ShutdownCommand (applyDefaults c) = ShutdownCommand c"
  "GuestAdditionsSHA256 (applyDefaults c) = GuestAdditionsSHA256 c"
  by (simp_all add: applyDefaults_def Let_def)

text \<open>What a run collects for a decoded configuration.\<close>

lemma collect_eq:
  "collect env c =
     (case driverChecks env c (fieldErrors env (applyDefaults c)) of
        Inl p \<Rightarrow> Inl p
      | Inr es \<Rightarrow>
          Inr \<lparr>st_c = (if GuestAdditionsSHA256 c \<noteq> []
                       then (applyDefaults c)\<lparr>GuestAdditionsSHA256 := ToLower env (GuestAdditionsSHA256 c)\<rparr>
                       else applyDefaults c),
               st_warnings = warningsOf c, st_errs = es\<rparr>)"
proof (cases "GuestAdditionsSHA256 c = []")
  case True
  have d: "driverChecks env (applyDefaults c) errs = driverChecks env c errs" for errs
    by (rule driverChecks_fields) simp_all
  have w: "warningsOf (applyDefaults c) = warningsOf c"
    by (simp add: warningsOf_def)
  show ?thesis
    using True by (simp add: collect_def Let_def d w cong: sum.case_cong)
next
  case False
  let ?c' = "(applyDefaults c)\<lparr>GuestAdditionsSHA256 := ToLower env (GuestAdditionsSHA256 c)\<rparr>"
  have d: "driverChecks env ?c' errs = driverChecks env c errs" for errs
    by (rule driverChecks_fields) simp_all
  have w: "warningsOf ?c' = warningsOf c"
    by (simp add: warningsOf_def)
  show ?thesis
    using False by (simp add: collect_def Let_def d w cong: sum.case_cong)
qed

lemma Prepare_decoded:
  assumes "Decode env = Inr c"
  shows "Prepare env =
     (case collect env c of
        Inl p \<Rightarrow> Panicked p
      | Inr st \<Rightarrow> Returned (st_warnings st)
          (if st_errs st = [] then None else Some (MultiError (st_errs st))))"
  using assms by (simp add: Prepare_def split: sum.splits)

text \<open>
  What \<^verbatim>\<open>Prepare\<close> returns when the configuration decodes, the driver exists and the
  tree is loaded: the errors of the fields followed by those of the validation.
\<close>

lemma Prepare_validate:
  assumes "Decode env = Inr c" "NewDriver env = Inr d"
    "LoadSnapshots d (VMName c) = Inr tree" "validate c tree = Inr es"
  shows "Prepare env = Returned (warningsOf c)
     (if fieldErrors env (applyDefaults c) @ es = [] then None
      else Some (MultiError (fieldErrors env (applyDefaults c) @ es)))"
proof -
  have "driverChecks env c (fieldErrors env (applyDefaults c)) =
      Inr (fieldErrors env (applyDefaults c) @ es)"
    using driverChecks_validate [OF assms(2,3)] assms(4) by simp
  then show ?thesis
    using Prepare_decoded [OF assms(1)] by (simp add: collect_eq)
qed

text \<open>With quiet collaborators the validation alone decides the result.\<close>

lemma quietEnv_fieldErrors:
  assumes "VMName c \<noteq> []" and "GuestAdditionsMode c = []"
  shows "fieldErrors (quietEnv c loaded) (applyDefaults c) = []"
  using assms
  by (simp add: quietEnv_def fieldErrors_def embeddedErrors_def MultiErrorAppend_def
      applyDefaults_def validModes_def GuestAdditionsModeDisable_def
      GuestAdditionsModeAttach_def GuestAdditionsModeUpload_def Let_def)

lemma quietEnv_Prepare:
  assumes "VMName c \<noteq> []" and "GuestAdditionsMode c = []" and "validate c tree = Inr es"
  shows "Prepare (quietEnv c (Inr tree)) =
     Returned (warningsOf c) (if es = [] then None else Some (MultiError es))"
proof -
  have "Decode (quietEnv c (Inr tree)) = Inr c"
    and "NewDriver (quietEnv c (Inr tree)) = Inr \<lparr>LoadSnapshots = (\<lambda>vmName. Inr tree)\<rparr>"
    and "LoadSnapshots \<lparr>LoadSnapshots = (\<lambda>vmName. Inr tree)\<rparr> (VMName c) = Inr tree"
    by (simp_all add: quietEnv_def)
  from Prepare_validate [OF this assms(3)] show ?thesis
    using quietEnv_fieldErrors [OF assms(1,2)] by simp
qed

text \<open>With the invariant of the tree the snapshot checks do not panic.\<close>

lemma checkAttach_Some:
  "\<exists>a' es. checkAttach c tree (Some a) errs = (Some a', es)"
  by (simp add: checkAttach_def Let_def split: option.splits)

lemma checkTarget_Some:
  "\<exists>es. checkTarget c tree (Some a) errs = Inr es"
  by (simp add: checkTarget_def Let_def split: option.splits)

lemma checkTarget_None:
  "checkTarget c None a errs = Inr errs"
  by (simp add: checkTarget_def)

lemma checkSnapshots_no_panic:
  assumes "tree_invariant tree"
  shows "\<exists>es. checkSnapshots c tree errs = Inr es"
proof (cases tree)
  case None
  then show ?thesis
    by (simp add: checkSnapshots_def currentAttach_def checkTarget_None split: prod.splits)
next
  case (Some t)
  with assms obtain cur where cur: "GetCurrentSnapshot t = Some cur"
    by (auto simp add: tree_invariant_def)
  obtain a' es where "checkAttach c tree (Some cur) errs = (Some a', es)"
    using checkAttach_Some by blast
  then show ?thesis
    using Some cur checkTarget_Some [of c tree a' es]
    by (simp add: checkSnapshots_def currentAttach_def)
qed

lemma collect_no_panic:
  assumes "\<forall>d t. NewDriver env = Inr d \<longrightarrow> LoadSnapshots d (VMName c) = Inr (Some t)
      \<longrightarrow> GetCurrentSnapshot t \<noteq> None"
  shows "\<exists>st. collect env c = Inr st \<and> st_warnings st = warningsOf c"
proof -
  have "\<exists>es. driverChecks env c errs = Inr es" for errs
  proof (cases "NewDriver env")
    case (Inl err)
    then show ?thesis by (simp add: driverChecks_def)
  next
    case (Inr d)
    show ?thesis
    proof (cases "LoadSnapshots d (VMName c)")
      case (Inl err)
      with Inr show ?thesis by (simp add: driverChecks_def)
    next
      case loaded: (Inr tree)
      have "tree_invariant tree"
        using assms Inr loaded by (cases tree) (simp_all add: tree_invariant_def)
      then obtain es where "checkSnapshots c tree (checkSameName c errs) = Inr es"
        using checkSnapshots_no_panic by blast
      with Inr loaded show ?thesis by (simp add: driverChecks_def)
    qed
  qed
  then obtain es where "driverChecks env c (fieldErrors env (applyDefaults c)) = Inr es"
    by blast
  then show ?thesis by (simp add: collect_eq)
qed

subsection \<open>The direct-child test with several nodes of the target's name\<close>

text \<open>
  C1. Claim: if the attach point is resolved, the target name is not empty and differs
  from the attach point's name, and at least one of the nodes with the target's name is
  a direct child of the attach point, then the validation does not report that the
  target is not a direct child, whatever the number and order of those nodes.

  The code does otherwise. In \<open>shadowedTree\<close> the name \<open>root\<close> resolves to the root, two
  nodes are named \<open>built\<close>, and the first of them is a direct child of the root. The
  loop keeps the answer for the last one only, which is not, and both the validation
  and \<^verbatim>\<open>Prepare\<close> report \<open>ErrTargetNotDirectChild\<close>.
\<close>

theorem last_match_decides_direct_child:
  "GetSnapshotsByName shadowedTree ''root'' = [shadowedRoot] \<and>
   GetSnapshotsByName shadowedTree ''built'' = [builtNode, deepBuiltNode] \<and>
   isDirectChild builtNode shadowedRoot \<and>
   validate (names ''root'' ''built'') (Some shadowedTree) =
     Inr [ErrTargetNotDirectChild ''built'' ''root''] \<and>
   Prepare (quietEnv (names ''root'' ''built'') (Inr (Some shadowedTree))) =
     Returned [] (Some (MultiError [ErrTargetNotDirectChild ''built'' ''root'']))"
proof -
  have v: "validate (names ''root'' ''built'') (Some shadowedTree) =
     Inr [ErrTargetNotDirectChild ''built'' ''root'']"
    by (simp add: check_defs tree_defs example_defs)
  have "VMName (names ''root'' ''built'') \<noteq> []"
    and "GuestAdditionsMode (names ''root'' ''built'') = []"
    by (simp_all add: example_defs)
  from quietEnv_Prepare [OF this v]
  have "Prepare (quietEnv (names ''root'' ''built'') (Inr (Some shadowedTree))) =
     Returned [] (Some (MultiError [ErrTargetNotDirectChild ''built'' ''root'']))"
    by (simp add: warningsOf_def example_defs)
  with v show ?thesis
    by (simp add: tree_defs example_defs)
qed

subsection \<open>A target that exists once as a direct child of the attach snapshot\<close>

text \<open>
  C2. Claim: if the attach name resolves to exactly one node \<open>A\<close> and exactly one node
  with the target's name has \<open>A\<close> as its parent, then the validation reports the
  single error \<open>ErrTargetAlreadyExists\<close> when overwriting is off, and no error when it
  is on.

  The code does otherwise. In \<open>shadowedTree\<close> the name \<open>root\<close> resolves to the root
  alone, and exactly one node is both named \<open>built\<close> and a direct child of the root.
  A second node named \<open>built\<close> lies deeper in the tree and is visited later; the loop
  keeps the answer for it only. The validation reports \<open>ErrTargetNotDirectChild\<close>
  instead, with overwriting off and with overwriting on, and so does \<^verbatim>\<open>Prepare\<close>.
\<close>

theorem unique_child_match_shadowed:
  "GetSnapshotsByName shadowedTree ''root'' = [shadowedRoot] \<and>
   filter (\<lambda>s. Name s = ''built'' \<and> isDirectChild s shadowedRoot) (nodes shadowedTree) =
     [builtNode] \<and>
   validate (names ''root'' ''built'') (Some shadowedTree) =
     Inr [ErrTargetNotDirectChild ''built'' ''root''] \<and>
   validate ((names ''root'' ''built'')\<lparr>DeleteTargetSnapshot := True\<rparr>) (Some shadowedTree) =
     Inr [ErrTargetNotDirectChild ''built'' ''root''] \<and>
   Prepare (quietEnv ((names ''root'' ''built'')\<lparr>DeleteTargetSnapshot := True\<rparr>)
       (Inr (Some shadowedTree))) =
     Returned [] (Some (MultiError [ErrTargetNotDirectChild ''built'' ''root'']))"
proof -
  let ?c = "(names ''root'' ''built'')\<lparr>DeleteTargetSnapshot := True\<rparr>"
  have v: "validate ?c (Some shadowedTree) = Inr [ErrTargetNotDirectChild ''built'' ''root'']"
    by (simp add: check_defs tree_defs example_defs)
  have "VMName ?c \<noteq> []" and "GuestAdditionsMode ?c = []"
    by (simp_all add: example_defs)
  from quietEnv_Prepare [OF this v]
  have "Prepare (quietEnv ?c (Inr (Some shadowedTree))) =
     Returned [] (Some (MultiError [ErrTargetNotDirectChild ''built'' ''root'']))"
    by (simp add: warningsOf_def example_defs)
  with v show ?thesis
    by (simp add: check_defs tree_defs example_defs)
qed

text \<open>
  When the target's name belongs to one node only, the loop has a single round: for a
  target name that is given and differs from the attach name, a direct child of the
  resolved attach snapshot is reported as existing, unless it may be overwritten.
\<close>

lemma single_target_match:
  assumes "tree_invariant snapshotTree"
    and "AttachSnapshot c \<noteq> []"
    and "namedNodes snapshotTree (AttachSnapshot c) = [A]"
    and "TargetSnapshot c \<noteq> []"
    and "TargetSnapshot c \<noteq> AttachSnapshot c"
    and "namedNodes snapshotTree (TargetSnapshot c) = [T]"
    and "isDirectChild T A"
  shows "validate c snapshotTree =
     Inr (if DeleteTargetSnapshot c then []
          else [ErrTargetAlreadyExists (TargetSnapshot c) (Name A) (VMName c)])"
proof -
  obtain t where t: "snapshotTree = Some t"
    using assms(3) by (cases snapshotTree) (simp_all add: namedNodes_def)
  obtain cur where cur: "GetCurrentSnapshot t = Some cur"
    using assms(1) t by (auto simp add: tree_invariant_def)
  have a: "GetSnapshotsByName t (AttachSnapshot c) = [A]"
    using assms(3) t by (simp add: namedNodes_def)
  have tg: "GetSnapshotsByName t (TargetSnapshot c) = [T]"
    using assms(6) t by (simp add: namedNodes_def)
  have "Name A = AttachSnapshot c"
    using GetSnapshotsByName_Name [of A t "AttachSnapshot c"] a by simp
  then have ne: "TargetSnapshot c \<noteq> Name A"
    using assms(5) by simp
  show ?thesis
    using t cur a tg ne assms(2,4,5,7) by (simp add: check_defs)
qed

subsection \<open>Equal names for the attach and the target snapshot\<close>

text \<open>
  C3. Whenever the attach name and the target name are both given and equal, the
  validation reports \<open>ErrSameAttachAndTarget\<close>, for an absent tree and for every tree
  that is present (with its current snapshot). It does not stop there: the error is
  followed by everything that the checks of the attach and of the target snapshot
  report on their own (\<open>rest\<close>). In particular, an absent tree also gives
  \<open>ErrNoSnapshotsDefined\<close>, a name that no node has also gives
  \<open>ErrAttachSnapshotNotFound\<close>, a name of several nodes also gives
  \<open>ErrAttachSnapshotAmbiguous\<close>, and a name of exactly one node also gives
  \<open>ErrTargetEqualsAttach\<close>.
\<close>

theorem same_names_reported_first:
  assumes "tree_invariant snapshotTree"
    and "AttachSnapshot c \<noteq> []" and "TargetSnapshot c \<noteq> []"
    and "AttachSnapshot c = TargetSnapshot c"
  shows "\<exists>rest. checkSnapshots c snapshotTree [] = Inr rest \<and>
     validate c snapshotTree =
       Inr (ErrSameAttachAndTarget (AttachSnapshot c) (TargetSnapshot c) # rest) \<and>
     (case snapshotTree of
        None \<Rightarrow> rest = [ErrNoSnapshotsDefined (VMName c) (AttachSnapshot c)]
      | Some t \<Rightarrow>
          (case GetSnapshotsByName t (AttachSnapshot c) of
             [] \<Rightarrow> ErrAttachSnapshotNotFound (AttachSnapshot c) (VMName c) \<in> set rest
           | [A] \<Rightarrow> rest = [ErrTargetEqualsAttach (TargetSnapshot c) (Name A)]
           | A # B # others \<Rightarrow>
               ErrAttachSnapshotAmbiguous (AttachSnapshot c) (VMName c) \<in> set rest))"
proof -
  obtain rest where rest: "checkSnapshots c snapshotTree [] = Inr rest"
    using checkSnapshots_no_panic [OF assms(1)] by blast
  have v: "validate c snapshotTree =
      Inr (ErrSameAttachAndTarget (AttachSnapshot c) (TargetSnapshot c) # rest)"
    using checkSnapshots_append [of c snapshotTree "checkSameName c []"] rest assms(2,3,4)
    by (simp add: validate_def checkSameName_def MultiErrorAppend_def)
  have "case snapshotTree of
        None \<Rightarrow> rest = [ErrNoSnapshotsDefined (VMName c) (AttachSnapshot c)]
      | Some t \<Rightarrow>
          (case GetSnapshotsByName t (AttachSnapshot c) of
             [] \<Rightarrow> ErrAttachSnapshotNotFound (AttachSnapshot c) (VMName c) \<in> set rest
           | [A] \<Rightarrow> rest = [ErrTargetEqualsAttach (TargetSnapshot c) (Name A)]
           | A # B # others \<Rightarrow>
               ErrAttachSnapshotAmbiguous (AttachSnapshot c) (VMName c) \<in> set rest)"
  proof (cases snapshotTree)
    case None
    then show ?thesis
      using rest assms(2,3) by (simp add: check_defs)
  next
    case (Some t)
    obtain cur where cur: "GetCurrentSnapshot t = Some cur"
      using assms(1) Some by (auto simp add: tree_invariant_def)
    show ?thesis
    proof (cases "GetSnapshotsByName t (AttachSnapshot c)")
      case Nil
      obtain es where "checkTarget c (Some t) (Some cur)
          [ErrAttachSnapshotNotFound (AttachSnapshot c) (VMName c)] = Inr es"
        and "ErrAttachSnapshotNotFound (AttachSnapshot c) (VMName c) \<in> set es"
        using checkTarget_append [of c "Some t" "Some cur"
            "[ErrAttachSnapshotNotFound (AttachSnapshot c) (VMName c)]"]
          checkTarget_Some [of c "Some t" cur "[]"]
        by auto
      then show ?thesis
        using Some cur Nil rest assms(2) by (simp add: check_defs)
    next
      case (Cons A others)
      note outer = Cons
      show ?thesis
      proof (cases others)
        case Nil
        have "Name A = AttachSnapshot c"
          using GetSnapshotsByName_Name [of A t "AttachSnapshot c"] outer by simp
        then show ?thesis
          using Some cur outer Nil rest assms(2,3,4) by (simp add: check_defs)
      next
        case (Cons B others')
        obtain es where "checkTarget c (Some t) (Some cur)
            [ErrAttachSnapshotAmbiguous (AttachSnapshot c) (VMName c)] = Inr es"
          and "ErrAttachSnapshotAmbiguous (AttachSnapshot c) (VMName c) \<in> set es"
          using checkTarget_append [of c "Some t" "Some cur"
              "[ErrAttachSnapshotAmbiguous (AttachSnapshot c) (VMName c)]"]
            checkTarget_Some [of c "Some t" cur "[]"]
          by auto
        then show ?thesis
          using Some cur outer Cons rest assms(2) by (simp add: check_defs)
      qed
    qed
  qed
  with rest v show ?thesis by blast
qed

text \<open>The scenario tree with \<open>root\<close> for both names: two errors are reported.\<close>

theorem same_names_reported_first_witness:
  "tree_invariant (Some scenarioTree) \<and>
   AttachSnapshot (names ''root'' ''root'') \<noteq> [] \<and>
   TargetSnapshot (names ''root'' ''root'') \<noteq> [] \<and>
   AttachSnapshot (names ''root'' ''root'') = TargetSnapshot (names ''root'' ''root'') \<and>
   validate (names ''root'' ''root'') (Some scenarioTree) =
     Inr [ErrSameAttachAndTarget ''root'' ''root'', ErrTargetEqualsAttach ''root'' ''root'']"
proof -
  have h: "tree_invariant (Some scenarioTree)"
    "AttachSnapshot (names ''root'' ''root'') \<noteq> []"
    "TargetSnapshot (names ''root'' ''root'') \<noteq> []"
    "AttachSnapshot (names ''root'' ''root'') = TargetSnapshot (names ''root'' ''root'')"
    by (simp_all add: example_defs tree_defs)
  have g: "GetSnapshotsByName scenarioTree ''root'' = [rootNode]"
    by (simp add: example_defs tree_defs)
  show ?thesis
    using same_names_reported_first [OF h] h g
    by (auto simp add: names_def baseConfig_def rootNode_def)
qed

subsection \<open>An attach snapshot for a machine without snapshots\<close>

text \<open>
  C4. For every configuration: if the snapshot tree is absent and the attach name is
  not empty, the validation reports \<open>ErrNoSnapshotsDefined\<close>; and so does \<^verbatim>\<open>Prepare\<close>
  in its returned error, whenever the configuration decodes, the driver exists and
  \<^verbatim>\<open>LoadSnapshots\<close> returns no tree.
\<close>

theorem absent_tree_named_attach:
  assumes "AttachSnapshot c \<noteq> []"
  shows "(\<exists>errs. validate c None = Inr errs \<and>
            ErrNoSnapshotsDefined (VMName c) (AttachSnapshot c) \<in> set errs) \<and>
     (\<forall>env d. Decode env = Inr c \<longrightarrow> NewDriver env = Inr d \<longrightarrow>
        LoadSnapshots d (VMName c) = Inr None \<longrightarrow>
        (\<exists>w errs. Prepare env = Returned w (Some (MultiError errs)) \<and>
           ErrNoSnapshotsDefined (VMName c) (AttachSnapshot c) \<in> set errs))"
proof -
  let ?es = "checkSameName c [] @ [ErrNoSnapshotsDefined (VMName c) (AttachSnapshot c)]"
  have v: "validate c None = Inr ?es"
    using assms by (simp add: check_defs)
  have "\<exists>w errs. Prepare env = Returned w (Some (MultiError errs)) \<and>
      ErrNoSnapshotsDefined (VMName c) (AttachSnapshot c) \<in> set errs"
    if "Decode env = Inr c" "NewDriver env = Inr d" "LoadSnapshots d (VMName c) = Inr None"
    for env d
    using Prepare_validate [OF that v] by simp
  with v show ?thesis by simp
qed

text \<open>No tree, and \<open>attach_snapshot = base\<close>.\<close>

theorem absent_tree_named_attach_witness:
  "AttachSnapshot (names ''base'' []) \<noteq> [] \<and>
   (\<exists>errs. validate (names ''base'' []) None = Inr errs \<and>
      ErrNoSnapshotsDefined ''vm'' ''base'' \<in> set errs) \<and>
   (\<exists>w errs. Prepare (quietEnv (names ''base'' []) (Inr None)) =
        Returned w (Some (MultiError errs)) \<and>
      ErrNoSnapshotsDefined ''vm'' ''base'' \<in> set errs)"
proof -
  have h: "AttachSnapshot (names ''base'' []) \<noteq> []"
    by (simp add: example_defs)
  have e: "Decode (quietEnv (names ''base'' []) (Inr None)) = Inr (names ''base'' [])"
    "NewDriver (quietEnv (names ''base'' []) (Inr None)) =
       Inr \<lparr>LoadSnapshots = (\<lambda>vmName. Inr None)\<rparr>"
    "LoadSnapshots \<lparr>LoadSnapshots = (\<lambda>vmName. Inr None)\<rparr> (VMName (names ''base'' [])) = Inr None"
    by (simp_all add: quietEnv_def)
  have n: "VMName (names ''base'' []) = ''vm''" "AttachSnapshot (names ''base'' []) = ''base''"
    by (simp_all add: example_defs)
  show ?thesis
    using absent_tree_named_attach [OF h] e h unfolding n by blast
qed

subsection \<open>Several snapshots with the attach name\<close>

text \<open>
  C5. For every tree that is present (with its current snapshot) and every attach name
  that is not empty: if more than one node of the tree has that name, the validation
  reports \<open>ErrAttachSnapshotAmbiguous\<close>. None of the matches becomes the attach
  point: the variable keeps the current snapshot.
\<close>

theorem ambiguous_attach_reported:
  assumes "tree_invariant (Some t)"
    and "AttachSnapshot c \<noteq> []"
    and "1 < length (filter (\<lambda>s. Name s = AttachSnapshot c) (nodes t))"
  shows "\<exists>errs. validate c (Some t) = Inr errs \<and>
     ErrAttachSnapshotAmbiguous (AttachSnapshot c) (VMName c) \<in> set errs \<and>
     checkAttach c (Some t) (GetCurrentSnapshot t) es =
       (GetCurrentSnapshot t, es @ [ErrAttachSnapshotAmbiguous (AttachSnapshot c) (VMName c)])"
proof -
  obtain cur where cur: "GetCurrentSnapshot t = Some cur"
    using assms(1) by (auto simp add: tree_invariant_def)
  have len: "1 < length (GetSnapshotsByName t (AttachSnapshot c))"
    using assms(3) by (simp add: GetSnapshotsByName_def)
  have ca: "checkAttach c (Some t) (Some cur) es =
      (Some cur, es @ [ErrAttachSnapshotAmbiguous (AttachSnapshot c) (VMName c)])" for es
    using len assms(2) by (auto simp add: checkAttach_def MultiErrorAppend_def Let_def)
  obtain ts where ts: "checkTarget c (Some t) (Some cur) [] = Inr ts"
    using checkTarget_Some by blast
  have "checkTarget c (Some t) (Some cur)
      (checkSameName c [] @ [ErrAttachSnapshotAmbiguous (AttachSnapshot c) (VMName c)]) =
      Inr ((checkSameName c [] @ [ErrAttachSnapshotAmbiguous (AttachSnapshot c) (VMName c)]) @ ts)"
    using checkTarget_append [of c "Some t" "Some cur"
        "checkSameName c [] @ [ErrAttachSnapshotAmbiguous (AttachSnapshot c) (VMName c)]"] ts
    by simp
  then have "validate c (Some t) =
      Inr ((checkSameName c [] @ [ErrAttachSnapshotAmbiguous (AttachSnapshot c) (VMName c)]) @ ts)"
    using cur ca by (simp add: validate_def checkSnapshots_def currentAttach_def)
  then show ?thesis
    using cur ca by simp
qed

text \<open>Two nodes named \<open>dup\<close> and \<open>attach_snapshot = dup\<close>.\<close>

theorem ambiguous_attach_reported_witness:
  "tree_invariant (Some dupTree) \<and>
   AttachSnapshot (names ''dup'' []) \<noteq> [] \<and>
   1 < length (filter (\<lambda>s. Name s = AttachSnapshot (names ''dup'' [])) (nodes dupTree)) \<and>
   (\<exists>errs. validate (names ''dup'' []) (Some dupTree) = Inr errs \<and>
      ErrAttachSnapshotAmbiguous ''dup'' ''vm'' \<in> set errs)"
proof -
  have h: "tree_invariant (Some dupTree)"
    "AttachSnapshot (names ''dup'' []) \<noteq> []"
    "1 < length (filter (\<lambda>s. Name s = AttachSnapshot (names ''dup'' [])) (nodes dupTree))"
    by (simp_all add: example_defs tree_defs)
  show ?thesis
    using ambiguous_attach_reported [OF h, where es = "[]"] h
    by (auto simp add: names_def baseConfig_def)
qed

subsection \<open>A target snapshot for a machine without snapshots\<close>

text \<open>
  C6. For every configuration with a machine name and without errors of the fields:
  if the snapshot tree is absent, the attach name is empty and the target name is not,
  then the validation reports nothing, and \<^verbatim>\<open>Prepare\<close> returns without an error.
\<close>

theorem absent_tree_fresh_target:
  assumes "Decode env = Inr c"
    and "VMName c \<noteq> []"
    and "fieldErrors env (applyDefaults c) = []"
    and "NewDriver env = Inr d"
    and "LoadSnapshots d (VMName c) = Inr None"
    and "AttachSnapshot c = []"
    and "TargetSnapshot c \<noteq> []"
  shows "validate c None = Inr [] \<and> Prepare env = Returned (warningsOf c) None"
proof -
  have v: "validate c None = Inr []"
    using assms(6,7) by (simp add: check_defs)
  show ?thesis
    using v Prepare_validate [OF assms(1,4,5) v] assms(3) by simp
qed

text \<open>No tree, no attach snapshot, and \<open>target_snapshot = base\<close>.\<close>

theorem absent_tree_fresh_target_witness:
  "Decode (quietEnv (names [] ''base'') (Inr None)) = Inr (names [] ''base'') \<and>
   VMName (names [] ''base'') \<noteq> [] \<and>
   fieldErrors (quietEnv (names [] ''base'') (Inr None)) (applyDefaults (names [] ''base'')) = [] \<and>
   NewDriver (quietEnv (names [] ''base'') (Inr None)) =
     Inr \<lparr>LoadSnapshots = (\<lambda>vmName. Inr None)\<rparr> \<and>
   AttachSnapshot (names [] ''base'') = [] \<and>
   TargetSnapshot (names [] ''base'') \<noteq> [] \<and>
   validate (names [] ''base'') None = Inr [] \<and>
   Prepare (quietEnv (names [] ''base'') (Inr None)) = Returned [] None"
proof -
  have n: "VMName (names [] ''base'') \<noteq> []" "GuestAdditionsMode (names [] ''base'') = []"
    by (simp_all add: example_defs)
  have h: "Decode (quietEnv (names [] ''base'') (Inr None)) = Inr (names [] ''base'')"
    "VMName (names [] ''base'') \<noteq> []"
    "fieldErrors (quietEnv (names [] ''base'') (Inr None)) (applyDefaults (names [] ''base'')) = []"
    "NewDriver (quietEnv (names [] ''base'') (Inr None)) =
       Inr \<lparr>LoadSnapshots = (\<lambda>vmName. Inr None)\<rparr>"
    "LoadSnapshots \<lparr>LoadSnapshots = (\<lambda>vmName. Inr None)\<rparr> (VMName (names [] ''base'')) = Inr None"
    "AttachSnapshot (names [] ''base'') = []"
    "TargetSnapshot (names [] ''base'') \<noteq> []"
    using quietEnv_fieldErrors [OF n] by (simp_all add: quietEnv_def names_def baseConfig_def)
  have w: "warningsOf (names [] ''base'') = []"
    by (simp add: warningsOf_def example_defs)
  show ?thesis
    using absent_tree_fresh_target [OF h] h w by simp
qed

subsection \<open>The two results of Prepare\<close>

text \<open>
  C7 as it is stated does not hold when the configuration cannot be decoded: then
  \<^verbatim>\<open>Prepare\<close> returns at once (lines 107 to 109) with the decoder's error, although no
  validation error has been collected, and without any warnings.
\<close>

theorem decode_error_returned_at_once:
  "Prepare failedDecodeEnv = Returned [] (Some (DecodeError ''unknown configuration key''))"
  by (simp add: Prepare_def example_defs)

text \<open>
  C7, amended. For every input whose configuration decodes and whose snapshot tree, if
  one is loaded, has a current snapshot: \<^verbatim>\<open>Prepare\<close> reaches line 249 with a state
  \<open>st\<close>, and it returns the warnings of that state both with and without an error. The
  error is absent exactly when no error was collected, and otherwise it carries the
  whole list of collected errors. The warnings are those of the configuration,
  whatever the errors are.
\<close>

theorem Prepare_returns_collected:
  assumes "Decode env = Inr c"
    and "\<forall>d t. NewDriver env = Inr d \<longrightarrow> LoadSnapshots d (VMName c) = Inr (Some t) \<longrightarrow>
           GetCurrentSnapshot t \<noteq> None"
  shows "\<exists>st. collect env c = Inr st \<and> st_warnings st = warningsOf c \<and>
     Prepare env = Returned (st_warnings st)
       (if st_errs st = [] then None else Some (MultiError (st_errs st)))"
proof -
  obtain st where "collect env c = Inr st" "st_warnings st = warningsOf c"
    using collect_no_panic [OF assms(2)] by blast
  then show ?thesis
    using Prepare_decoded [OF assms(1)] by simp
qed

text \<open>
  Two runs on the scenario tree without a shutdown command, so that each has one
  warning: the target \<open>built\<close> exists and gives an error, the target \<open>fresh\<close> gives
  none.
\<close>

theorem Prepare_returns_collected_witness:
  "Decode (quietEnv (haltless (names ''root'' ''built'')) (Inr (Some scenarioTree))) =
     Inr (haltless (names ''root'' ''built'')) \<and>
   GetCurrentSnapshot scenarioTree \<noteq> None \<and>
   Prepare (quietEnv (haltless (names ''root'' ''built'')) (Inr (Some scenarioTree))) =
     Returned (warningsOf (haltless (names ''root'' ''built'')))
       (Some (MultiError [ErrTargetAlreadyExists ''built'' ''root'' ''vm''])) \<and>
   length (warningsOf (haltless (names ''root'' ''built''))) = 1 \<and>
   Prepare (quietEnv (haltless (names ''root'' ''fresh'')) (Inr (Some scenarioTree))) =
     Returned (warningsOf (haltless (names ''root'' ''fresh''))) None \<and>
   length (warningsOf (haltless (names ''root'' ''fresh''))) = 1"
proof -
  let ?c = "haltless (names ''root'' ''built'')"
  let ?env = "quietEnv ?c (Inr (Some scenarioTree))"
  let ?c2 = "haltless (names ''root'' ''fresh'')"
  let ?env2 = "quietEnv ?c2 (Inr (Some scenarioTree))"
  have cur: "GetCurrentSnapshot scenarioTree \<noteq> None"
    by (simp add: GetCurrentSnapshot_def scenarioTree_def)
  have h: "Decode ?env = Inr ?c"
    "\<forall>d t. NewDriver ?env = Inr d \<longrightarrow> LoadSnapshots d (VMName ?c) = Inr (Some t) \<longrightarrow>
           GetCurrentSnapshot t \<noteq> None"
    using cur by (auto simp add: quietEnv_def)
  have h2: "Decode ?env2 = Inr ?c2"
    "\<forall>d t. NewDriver ?env2 = Inr d \<longrightarrow> LoadSnapshots d (VMName ?c2) = Inr (Some t) \<longrightarrow>
           GetCurrentSnapshot t \<noteq> None"
    using cur by (auto simp add: quietEnv_def)
  have n: "VMName ?c \<noteq> []" "GuestAdditionsMode ?c = []"
    "VMName ?c2 \<noteq> []" "GuestAdditionsMode ?c2 = []"
    by (simp_all add: example_defs)
  have f: "fieldErrors ?env (applyDefaults ?c) = []" "fieldErrors ?env2 (applyDefaults ?c2) = []"
    using quietEnv_fieldErrors [OF n(1,2)] quietEnv_fieldErrors [OF n(3,4)] by simp_all
  have d: "driverChecks ?env ?c [] = Inr [ErrTargetAlreadyExists ''built'' ''root'' ''vm'']"
    "driverChecks ?env2 ?c2 [] = Inr []"
    by (simp_all add: driverChecks_def check_defs tree_defs example_defs)
  have e: "collect ?env ?c = Inr st \<Longrightarrow> st_errs st = [ErrTargetAlreadyExists ''built'' ''root'' ''vm'']"
    "collect ?env2 ?c2 = Inr st \<Longrightarrow> st_errs st = []" for st
    using f d by (auto simp add: collect_eq)
  have w: "length (warningsOf ?c) = 1" "length (warningsOf ?c2) = 1"
    by (simp_all add: warningsOf_def example_defs)
  show ?thesis
    using Prepare_returns_collected [OF h] Prepare_returns_collected [OF h2] h(1) cur e w
    by auto
qed

subsection \<open>Defaults\<close>

text \<open>
  C8. The defaulting step is a total function on configurations and reports no error.
  An empty guest additions mode becomes \<open>upload\<close>, an empty guest additions path becomes
  \<open>VBoxGuestAdditions.iso\<close>, a post-shutdown delay of zero becomes two seconds
  (2000000000 nanoseconds); a value that is set stays as it is, and so does every
  other field.
\<close>

theorem applyDefaults_fields:
  "GuestAdditionsMode (applyDefaults c) =
     (if GuestAdditionsMode c = [] then ''upload'' else GuestAdditionsMode c) \<and>
   GuestAdditionsPath (applyDefaults c) =
     (if GuestAdditionsPath c = [] then ''VBoxGuestAdditions.iso'' else GuestAdditionsPath c) \<and>
   PostShutdownDelay (applyDefaults c) =
     (if PostShutdownDelay c = 0 then 2 * Second else PostShutdownDelay c) \<and>
   sint (2 * Second) = 2000000000 \<and>
   GuestAdditionsSHA256 (applyDefaults c) = GuestAdditionsSHA256 c \<and>
   GuestAdditionsURL (applyDefaults c) = GuestAdditionsURL c \<and>
   VMName (applyDefaults c) = VMName c \<and>
   AttachSnapshot (applyDefaults c) = AttachSnapshot c \<and>
   TargetSnapshot (applyDefaults c) = TargetSnapshot c \<and>
   DeleteTargetSnapshot (applyDefaults c) = DeleteTargetSnapshot c \<and>
   KeepRegistered (applyDefaults c) = KeepRegistered c \<and>
   SkipExport (applyDefaults c) = SkipExport c \<and>
   ShutdownCommand (applyDefaults c) = ShutdownCommand c"
  by (simp add: applyDefaults_def Second_def Let_def)

subsection \<open>The target checks after a failed lookup of the attach snapshot\<close>



subsection \<open>Panics\<close>

text \<open>
  C10. Under the invariant that a tree which is present has a current snapshot,
  \<^verbatim>\<open>Prepare\<close> never panics. With such a tree the variable \<^verbatim>\<open>attachSnapshot\<close> is set when
  the current snapshot is logged (line 198) and is still set after the lookup of the
  attach name, so that the target checks, among them the test of line 225, do not
  panic either.
\<close>

theorem Prepare_never_panics:
  assumes "\<forall>c d t. Decode env = Inr c \<longrightarrow> NewDriver env = Inr d \<longrightarrow>
      LoadSnapshots d (VMName c) = Inr (Some t) \<longrightarrow> GetCurrentSnapshot t \<noteq> None"
  shows "(\<forall>p. Prepare env \<noteq> Panicked p) \<and>
    (\<forall>c t errs. GetCurrentSnapshot t \<noteq> None \<longrightarrow>
       (\<exists>cur a es es'. currentAttach (Some t) = Inr (Some cur) \<and>
          checkAttach c (Some t) (Some cur) errs = (Some a, es) \<and>
          checkTarget c (Some t) (Some a) es = Inr es'))"
proof
  show "\<forall>p. Prepare env \<noteq> Panicked p"
  proof (cases "Decode env")
    case (Inl err)
    then show ?thesis by (simp add: Prepare_def)
  next
    case (Inr c)
    with assms have "\<forall>d t. NewDriver env = Inr d \<longrightarrow> LoadSnapshots d (VMName c) = Inr (Some t)
        \<longrightarrow> GetCurrentSnapshot t \<noteq> None"
      by simp
    then obtain st where "collect env c = Inr st"
      using collect_no_panic by blast
    then show ?thesis
      using Prepare_decoded [OF Inr] by simp
  qed
next
  show "\<forall>c t errs. GetCurrentSnapshot t \<noteq> None \<longrightarrow>
       (\<exists>cur a es es'. currentAttach (Some t) = Inr (Some cur) \<and>
          checkAttach c (Some t) (Some cur) errs = (Some a, es) \<and>
          checkTarget c (Some t) (Some a) es = Inr es')"
  proof (intro allI impI)
    fix c t errs
    assume "GetCurrentSnapshot t \<noteq> None"
    then obtain cur where cur: "currentAttach (Some t) = Inr (Some cur)"
      by (auto simp add: currentAttach_def)
    obtain a es where a: "checkAttach c (Some t) (Some cur) errs = (Some a, es)"
      using checkAttach_Some by blast
    obtain es' where "checkTarget c (Some t) (Some a) es = Inr es'"
      using checkTarget_Some by blast
    with cur a show "\<exists>cur a es es'. currentAttach (Some t) = Inr (Some cur) \<and>
          checkAttach c (Some t) (Some cur) errs = (Some a, es) \<and>
          checkTarget c (Some t) (Some a) es = Inr es'"
      by blast
  qed
qed

text \<open>A run on the scenario tree.\<close>

theorem Prepare_never_panics_witness:
  "Decode (quietEnv (names ''root'' ''built'') (Inr (Some scenarioTree))) =
     Inr (names ''root'' ''built'') \<and>
   GetCurrentSnapshot scenarioTree \<noteq> None \<and>
   (\<forall>p. Prepare (quietEnv (names ''root'' ''built'') (Inr (Some scenarioTree))) \<noteq> Panicked p) \<and>
   (\<exists>cur a es es'. currentAttach (Some scenarioTree) = Inr (Some cur) \<and>
      checkAttach (names ''root'' ''built'') (Some scenarioTree) (Some cur) [] = (Some a, es) \<and>
      checkTarget (names ''root'' ''built'') (Some scenarioTree) (Some a) es = Inr es')"
proof -
  let ?env = "quietEnv (names ''root'' ''built'') (Inr (Some scenarioTree))"
  have cur: "GetCurrentSnapshot scenarioTree \<noteq> None"
    by (simp add: GetCurrentSnapshot_def scenarioTree_def)
  have h: "\<forall>c d t. Decode ?env = Inr c \<longrightarrow> NewDriver ?env = Inr d \<longrightarrow>
      LoadSnapshots d (VMName c) = Inr (Some t) \<longrightarrow> GetCurrentSnapshot t \<noteq> None"
    using cur by (auto simp add: quietEnv_def)
  have d: "Decode ?env = Inr (names ''root'' ''built'')"
    by (simp add: quietEnv_def)
  show ?thesis
    using Prepare_never_panics [OF h] cur d by blast
qed

end
